theory Spec2Isabelle
  imports Complex_Main
begin

section \<open>Camera tracking of \<open>project2_ex1_fbx_tiktok.py\<close>\<close>

text \<open>
  The script drives a 3D application through its scripting interface. The part with
  structure of its own is \<open>setup_camera_tracking\<close>: for every sampled frame it moves the
  scene to the frame, reads the world position of the target, places the camera behind and
  above it, aims the camera with the library's track quaternion and inserts two keyframes.

  Conventions of the model:
  \<^item> Python \<open>int\<close> is \<open>int\<close>. In the model of the routine a Python \<open>float\<close> is a \<open>real\<close>
    and arithmetic is exact. Where a statement turns on rounding, which is the case for
    the look direction, the arithmetic of lines 226 to 239 is modelled a second time, in
    binary64 with rounding to nearest, ties to even.
  \<^item> The scene, the camera and the record of calls made to the application are one
    \<open>world\<close> value that every operation takes and returns.
  \<^item> Calls into the application are taken to succeed; limits the application puts on frame
    numbers are not modelled. The one Python exception in reach of the routine is the
    \<open>ValueError\<close> of \<open>range\<close> with a zero step.
  \<^item> Functions of the mathematics library whose code is not part of the script
    (\<open>to_track_quat\<close>, \<open>to_euler\<close>, \<open>to_quaternion\<close>) are fields of a \<open>host\<close> record:
    every theorem holds for all of them.
\<close>

subsection \<open>Module constants\<close>

definition FRAME_STEP :: int where
  "FRAME_STEP = 5"

definition CAMERA_DISTANCE :: real where
  "CAMERA_DISTANCE = 2.5"

definition CAMERA_HEIGHT_OFFSET :: real where
  "CAMERA_HEIGHT_OFFSET = 1.5"

definition TARGET_BONE_NAME :: string where
  "TARGET_BONE_NAME = ''mixamorig:Hips''"

subsection \<open>Vectors, matrices, objects\<close>

type_synonym vec3 = "real \<times> real \<times> real"

type_synonym quat = "real \<times> real \<times> real \<times> real"

text \<open>A 4x4 transform, addressed by row and column.\<close>

type_synonym mat4 = "nat \<Rightarrow> nat \<Rightarrow> real"

text \<open>\<open>v[0]\<close>, \<open>v[1]\<close>, \<open>v[2]\<close>.\<close>

definition at0 :: "vec3 \<Rightarrow> real" where
  "at0 v = fst v"

definition at1 :: "vec3 \<Rightarrow> real" where
  "at1 v = fst (snd v)"

definition at2 :: "vec3 \<Rightarrow> real" where
  "at2 v = snd (snd v)"

text \<open>\<open>M.translation\<close>: the first three entries of the last column.\<close>

definition translation :: "mat4 \<Rightarrow> vec3" where
  "translation M = (M 0 3, M 1 3, M 2 3)"

text \<open>\<open>A @ B\<close>: the matrix product.\<close>

definition matmul :: "mat4 \<Rightarrow> mat4 \<Rightarrow> mat4" where
  "matmul A B = (\<lambda>i j. A i 0 * B 0 j + A i 1 * B 1 j + A i 2 * B 2 j + A i 3 * B 3 j)"

text \<open>
  What the script reads of a scene object: its \<open>type\<close>, its \<open>matrix_world\<close> and, for an
  armature, \<open>pose.bones\<close> as a dictionary from bone names to the bones' matrices.
\<close>

record object3d =
  obj_type :: string
  matrix_world :: mat4
  pose_bones :: "string \<rightharpoonup> mat4"

text \<open>
  The target is animated: what the script reads of it is its state as evaluated at the
  scene's current frame.
\<close>

type_synonym animated_object = "int \<Rightarrow> object3d"

subsection \<open>Camera, scene and the calls made to the application\<close>

type_synonym fcurves = "(string \<times> int) \<rightharpoonup> vec3"

record camera =
  location :: vec3
  rotation_euler :: vec3
  animation_data :: "fcurves option"

datatype event =
    EchoSetup int int
  | AnimationDataClear
  | FrameSet int
  | ReadTarget int vec3
  | SetLocation vec3
  | ToTrackQuat vec3 string string
  | SetRotationEuler vec3
  | KeyframeInsert string int
  | EchoBaked int

record world =
  frame_current :: int
  cam :: camera
  trace :: "event list"

record host =
  to_quaternion :: "vec3 \<Rightarrow> quat"
  to_track_quat :: "vec3 \<Rightarrow> string \<Rightarrow> string \<Rightarrow> quat"
  to_euler :: "quat \<Rightarrow> vec3"

datatype error = ValueError

definition emit :: "event \<Rightarrow> world \<Rightarrow> world" where
  "emit e w = w\<lparr>trace := trace w @ [e]\<rparr>"

text \<open>\<open>scene.frame_set(frame)\<close>.\<close>

definition frame_set :: "int \<Rightarrow> world \<Rightarrow> world" where
  "frame_set frame w = emit (FrameSet frame) (w\<lparr>frame_current := frame\<rparr>)"

text \<open>\<open>camera.animation_data_clear()\<close>.\<close>

definition animation_data_clear :: "world \<Rightarrow> world" where
  "animation_data_clear w =
     emit AnimationDataClear (w\<lparr>cam := (cam w)\<lparr>animation_data := None\<rparr>\<rparr>)"

text \<open>\<open>camera.location = v\<close> and \<open>camera.rotation_euler = v\<close>.\<close>

definition set_location :: "vec3 \<Rightarrow> world \<Rightarrow> world" where
  "set_location v w = emit (SetLocation v) (w\<lparr>cam := (cam w)\<lparr>location := v\<rparr>\<rparr>)"

definition set_rotation_euler :: "vec3 \<Rightarrow> world \<Rightarrow> world" where
  "set_rotation_euler v w =
     emit (SetRotationEuler v) (w\<lparr>cam := (cam w)\<lparr>rotation_euler := v\<rparr>\<rparr>)"

text \<open>
  The animated properties the script keys, by data path. The application raises for a
  path that names no property; the script passes these two only.
\<close>

definition camera_property :: "string \<Rightarrow> camera \<Rightarrow> vec3 option" where
  "camera_property data_path c =
     (if data_path = ''location'' then Some (location c)
      else if data_path = ''rotation_euler'' then Some (rotation_euler c)
      else None)"

text \<open>The camera's keyframes; none when it has no animation data.\<close>

definition keyframes :: "world \<Rightarrow> fcurves" where
  "keyframes w = (case animation_data (cam w) of None \<Rightarrow> Map.empty | Some m \<Rightarrow> m)"

text \<open>
  \<open>camera.keyframe_insert(data_path=..., frame=...)\<close>: the current value of the property
  is stored at the frame, in animation data that is created when the camera has none.
\<close>

definition keyframe_insert :: "string \<Rightarrow> int \<Rightarrow> world \<Rightarrow> world" where
  "keyframe_insert data_path frame w =
     (case camera_property data_path (cam w) of
        None \<Rightarrow> w
      | Some v \<Rightarrow>
          emit (KeyframeInsert data_path frame)
            (w\<lparr>cam := (cam w)\<lparr>animation_data :=
                  Some ((keyframes w)((data_path, frame) \<mapsto> v))\<rparr>\<rparr>))"

subsection \<open>\<open>range\<close>\<close>

function range_up :: "int \<Rightarrow> int \<Rightarrow> int \<Rightarrow> int list" where
  "range_up i stop step =
     (if 0 < step \<and> i < stop then i # range_up (i + step) stop step else [])"
  by pat_completeness auto
termination
  by (relation "measure (\<lambda>(i, stop, step). nat (stop - i))") auto

function range_down :: "int \<Rightarrow> int \<Rightarrow> int \<Rightarrow> int list" where
  "range_down i stop step =
     (if step < 0 \<and> stop < i then i # range_down (i + step) stop step else [])"
  by pat_completeness auto
termination
  by (relation "measure (\<lambda>(i, stop, step). nat (i - stop))") auto

declare range_up.simps [simp del]

declare range_down.simps [simp del]

text \<open>\<open>range(start, stop, step)\<close>; a zero step raises \<open>ValueError\<close>.\<close>

definition py_range :: "int \<Rightarrow> int \<Rightarrow> int \<Rightarrow> error + int list" where
  "py_range start stop step =
     (if step = 0 then Inl ValueError
      else if 0 < step then Inr (range_up start stop step)
      else Inr (range_down start stop step))"

subsection \<open>\<open>get_target_world_location\<close>\<close>

definition get_target_world_location :: "object3d \<Rightarrow> string \<Rightarrow> vec3" where
  "get_target_world_location armature bone_name =
     (case pose_bones armature bone_name of
        Some bone_matrix \<Rightarrow> translation (matmul (matrix_world armature) bone_matrix)
      | None \<Rightarrow> translation (matrix_world armature))"

subsection \<open>\<open>setup_camera_tracking\<close>\<close>

text \<open>
  Lines 220 to 223, the target location: the bone when the target is an armature and a
  non-empty bone name was given, the object's own origin otherwise.
\<close>

definition read_target_loc :: "object3d \<Rightarrow> string option \<Rightarrow> vec3" where
  "read_target_loc tgt bone_name =
     (case bone_name of
        None \<Rightarrow> translation (matrix_world tgt)
      | Some b \<Rightarrow>
          if obj_type tgt = ''ARMATURE'' \<and> b \<noteq> ''''
          then get_target_world_location tgt b
          else translation (matrix_world tgt))"

text \<open>
  Lines 225 to 244: the camera goes behind and above the target, the direction from the
  camera to the target is handed to \<open>to_track_quat("-Z", "Y")\<close>, and the result, as Euler
  angles, becomes the camera's rotation. \<open>rot_quat\<close> is computed and never used.
\<close>

definition aim_camera :: "host \<Rightarrow> vec3 \<Rightarrow> world \<Rightarrow> world" where
  "aim_camera h target_loc w =
     (let w1 = set_location
                 (at0 target_loc,
                  at1 target_loc - CAMERA_DISTANCE,
                  at2 target_loc + CAMERA_HEIGHT_OFFSET) w;
          direction = (at0 target_loc - at0 (location (cam w1)),
                       at1 target_loc - at1 (location (cam w1)),
                       at2 target_loc - at2 (location (cam w1)));
          rot_quat = to_quaternion h (rotation_euler (cam w1));
          track_quat = to_track_quat h direction ''-Z'' ''Y'';
          w2 = emit (ToTrackQuat direction ''-Z'' ''Y'') w1
      in set_rotation_euler (to_euler h track_quat) w2)"

text \<open>One pass of the loop, lines 217 to 248.\<close>

definition track_frame ::
  "host \<Rightarrow> animated_object \<Rightarrow> string option \<Rightarrow> int \<Rightarrow> world \<Rightarrow> world" where
  "track_frame h target bone_name frame w =
     (let w1 = frame_set frame w;
          target_loc = read_target_loc (target (frame_current w1)) bone_name;
          w2 = emit (ReadTarget (frame_current w1) target_loc) w1;
          w3 = aim_camera h target_loc w2;
          w4 = keyframe_insert ''location'' frame w3
      in keyframe_insert ''rotation_euler'' frame w4)"

definition setup_camera_tracking ::
  "host \<Rightarrow> animated_object \<Rightarrow> string option \<Rightarrow> int \<Rightarrow> int \<Rightarrow> world \<Rightarrow> error + world" where
  "setup_camera_tracking h target bone_name frame_start frame_end w =
     (let w1 = emit (EchoSetup frame_start frame_end) w;
          w2 = (if animation_data (cam w1) \<noteq> None then animation_data_clear w1 else w1)
      in case py_range frame_start (frame_end + 1) FRAME_STEP of
           Inl e \<Rightarrow> Inl e
         | Inr frames \<Rightarrow>
             Inr (emit (EchoBaked ((frame_end - frame_start) div FRAME_STEP + 1))
                    (fold (track_frame h target bone_name) frames w2)))"

subsection \<open>Notions used in the statements\<close>

text \<open>
  The frames the loop visits, written as the progression \<open>frame_start\<close>,
  \<open>frame_start + FRAME_STEP\<close>, ... up to \<open>frame_end\<close>.
\<close>

definition sampled_frames :: "int \<Rightarrow> int \<Rightarrow> int list" where
  "sampled_frames frame_start frame_end =
     map (\<lambda>k. frame_start + FRAME_STEP * int k)
       [0 ..< nat ((frame_end - frame_start) div FRAME_STEP + 1)]"

text \<open>The calls recorded between an earlier world and a later one.\<close>

definition calls_made :: "world \<Rightarrow> world \<Rightarrow> event list" where
  "calls_made w w' = drop (length (trace w)) (trace w')"

text \<open>The keyframe insertions among a list of calls, in order.\<close>

fun keyframe_inserts :: "event list \<Rightarrow> (string \<times> int) list" where
  "keyframe_inserts [] = []"
| "keyframe_inserts (KeyframeInsert p f # es) = (p, f) # keyframe_inserts es"
| "keyframe_inserts (e # es) = keyframe_inserts es"

text \<open>
  The calls that move the scene or read the target. A read is recorded with the frame the
  scene is at when it is made and with the location it returns.
\<close>

fun scene_event :: "event \<Rightarrow> bool" where
  "scene_event (FrameSet f) = True"
| "scene_event (ReadTarget f v) = True"
| "scene_event e = False"

text \<open>The calls of one pass of the loop at a frame.\<close>

definition frame_calls ::
  "host \<Rightarrow> animated_object \<Rightarrow> string option \<Rightarrow> int \<Rightarrow> event list" where
  "frame_calls h target bone_name frame =
     (let target_loc = read_target_loc (target frame) bone_name
      in [FrameSet frame,
          ReadTarget frame target_loc,
          SetLocation (at0 target_loc, at1 target_loc - CAMERA_DISTANCE,
                       at2 target_loc + CAMERA_HEIGHT_OFFSET),
          ToTrackQuat (0, CAMERA_DISTANCE, - CAMERA_HEIGHT_OFFSET) ''-Z'' ''Y'',
          SetRotationEuler
            (to_euler h
               (to_track_quat h (0, CAMERA_DISTANCE, - CAMERA_HEIGHT_OFFSET) ''-Z'' ''Y'')),
          KeyframeInsert ''location'' frame,
          KeyframeInsert ''rotation_euler'' frame])"

text \<open>
  The world in which the loop starts: the opening message is printed and animation data
  the camera already has is cleared (lines 207 to 211).
\<close>

definition prepared :: "int \<Rightarrow> int \<Rightarrow> world \<Rightarrow> world" where
  "prepared frame_start frame_end w =
     (if animation_data (cam w) \<noteq> None
      then animation_data_clear (emit (EchoSetup frame_start frame_end) w)
      else emit (EchoSetup frame_start frame_end) w)"

subsection \<open>Lines 226 to 239 in binary64\<close>

text \<open>
  Python's \<open>float\<close> is the binary64 format: the result of \<open>+\<close> and \<open>-\<close> is the exact result
  rounded to 53 significant bits, to the nearest value and to the even one of two nearest.
  The exponent range is not modelled (coordinates come from the application's single
  precision vectors, far inside it).
\<close>

definition round_even :: "real \<Rightarrow> int" where
  "round_even t =
     (let n = \<lfloor>t\<rfloor>
      in if t - of_int n < 1 / 2 then n
         else if 1 / 2 < t - of_int n then n + 1
         else if even n then n else n + 1)"

text \<open>The spacing of binary64 values around a non-zero \<open>x\<close>.\<close>

definition ulp_double :: "real \<Rightarrow> real" where
  "ulp_double x = 2 powr (of_int \<lfloor>log 2 \<bar>x\<bar>\<rfloor> - 52)"

definition round_double :: "real \<Rightarrow> real" where
  "round_double x =
     (if x = 0 then 0 else of_int (round_even (x / ulp_double x)) * ulp_double x)"

definition fsub :: "real \<Rightarrow> real \<Rightarrow> real" where
  "fsub a b = round_double (a - b)"

definition fadd :: "real \<Rightarrow> real \<Rightarrow> real" where
  "fadd a b = round_double (a + b)"

text \<open>
  The camera location as line 226 writes it and the direction as line 233 computes it. The
  direction is taken against \<open>camera.location\<close> as the application returns it:
  \<open>stored\<close> is what the application gives back for a coordinate written to the property
  (it keeps vectors in its own precision). The three components are the Python floats that
  line 233 computes, before the library's \<open>Vector\<close> takes them. The distance and the height
  are parameters, so that a statement can range over every distance; the module's values
  are \<open>CAMERA_DISTANCE\<close> and \<open>CAMERA_HEIGHT_OFFSET\<close>.
\<close>

definition camera_location_fp :: "real \<Rightarrow> real \<Rightarrow> vec3 \<Rightarrow> vec3" where
  "camera_location_fp distance height_offset target_loc =
     (at0 target_loc,
      fsub (at1 target_loc) distance,
      fadd (at2 target_loc) height_offset)"

definition look_direction_fp :: "(real \<Rightarrow> real) \<Rightarrow> real \<Rightarrow> real \<Rightarrow> vec3 \<Rightarrow> vec3" where
  "look_direction_fp stored distance height_offset target_loc =
     (let written = camera_location_fp distance height_offset target_loc;
          camera_location = (stored (at0 written), stored (at1 written), stored (at2 written))
      in (fsub (at0 target_loc) (at0 camera_location),
          fsub (at1 target_loc) (at1 camera_location),
          fsub (at2 target_loc) (at2 camera_location)))"

subsection \<open>A small scene\<close>

text \<open>
  An armature that walks along the x axis, one unit per frame, with a hips bone one unit
  above its origin; a camera that already carries a keyframe from an earlier run; and
  stand-ins for the library's rotation functions.
\<close>

definition translation_matrix :: "vec3 \<Rightarrow> mat4" where
  "translation_matrix v =
     (\<lambda>i j. if j = 3 \<and> i = 0 then at0 v
            else if j = 3 \<and> i = 1 then at1 v
            else if j = 3 \<and> i = 2 then at2 v
            else if i = j then 1 else 0)"

definition walker :: animated_object where
  "walker frame =
     \<lparr>obj_type = ''ARMATURE'',
      matrix_world = translation_matrix (real_of_int frame, 0, 0),
      pose_bones = [TARGET_BONE_NAME \<mapsto> translation_matrix (0, 0, 1)]\<rparr>"

definition plain_host :: host where
  "plain_host =
     \<lparr>to_quaternion = (\<lambda>e. (1, 0, 0, 0)),
      to_track_quat = (\<lambda>d tr up. (0, at0 d, at1 d, at2 d)),
      to_euler = (\<lambda>q. (fst (snd q), fst (snd (snd q)), snd (snd (snd q))))\<rparr>"

definition used_world :: world where
  "used_world =
     \<lparr>frame_current = 0,
      cam = \<lparr>location = (0, 0, 0), rotation_euler = (0, 0, 0),
             animation_data = Some [(''location'', 3) \<mapsto> (9, 9, 9)]\<rparr>,
      trace = []\<rparr>"

section \<open>Properties\<close>

subsection \<open>Vectors and the record of calls\<close>

lemma at_simps [simp]: "at0 (x, y, z) = x" "at1 (x, y, z) = y" "at2 (x, y, z) = z"
  by (simp_all add: at0_def at1_def at2_def)

lemma emit_simps [simp]:
  "trace (emit e w) = trace w @ [e]"
  "cam (emit e w) = cam w"
  "frame_current (emit e w) = frame_current w"
  by (simp_all add: emit_def)

lemma range_up_Nil: "\<not> (0 < step \<and> i < stop) \<Longrightarrow> range_up i stop step = []"
  by (subst range_up.simps) (simp only: if_False)

lemma range_up_Cons:
  "0 < step \<Longrightarrow> i < stop \<Longrightarrow> range_up i stop step = i # range_up (i + step) stop step"
  by (subst range_up.simps) simp

lemma range_up_set:
  "0 < s \<Longrightarrow> set (range_up a b s) = {f. a \<le> f \<and> f < b \<and> (f - a) mod s = 0}"
proof (induction a b s rule: range_up.induct)
  case (1 i stop step)
  show ?case
  proof (cases "i < stop")
    case False
    then show ?thesis by (subst range_up.simps) auto
  next
    case True
    have ih: "set (range_up (i + step) stop step) =
        {f. i + step \<le> f \<and> f < stop \<and> (f - (i + step)) mod step = 0}"
      using 1 True by simp
    have eq: "range_up i stop step = i # range_up (i + step) stop step"
      using 1(2) True by (subst range_up.simps) simp
    have m: "\<And>f. (f - (i + step)) mod step = (f - i) mod step"
      by (metis diff_diff_eq mod_diff_right_eq mod_self diff_zero)
    have "\<And>f. i \<le> f \<Longrightarrow> (f - i) mod step = 0 \<Longrightarrow> f \<noteq> i \<Longrightarrow> i + step \<le> f"
    proof -
      fix f assume a: "i \<le> f" "(f - i) mod step = 0" "f \<noteq> i"
      then have "step dvd (f - i)" by auto
      moreover have "0 < f - i" using a by simp
      ultimately have "step \<le> f - i" by (rule zdvd_imp_le)
      then show "i + step \<le> f" by simp
    qed
    then show ?thesis
      unfolding eq using ih m 1(2) True by auto
  qed
qed

lemma range_up_length:
  "0 < s \<Longrightarrow> int (length (range_up a b s)) = max 0 ((b - a + s - 1) div s)"
proof (induction a b s rule: range_up.induct)
  case (1 i stop step)
  show ?case
  proof (cases "i < stop")
    case False
    have "(stop - i + step - 1) div step \<le> (step - 1) div step"
      by (rule zdiv_mono1) (use False 1(2) in auto)
    moreover have "(step - 1) div step = 0"
      using 1(2) by simp
    ultimately have "(stop - i + step - 1) div step \<le> 0" by simp
    with False show ?thesis by (subst range_up.simps) simp
  next
    case True
    have ih: "int (length (range_up (i + step) stop step)) =
        max 0 ((stop - (i + step) + step - 1) div step)"
      using 1 True by simp
    have eq: "range_up i stop step = i # range_up (i + step) stop step"
      using 1(2) True by (subst range_up.simps) simp
    have nn: "0 \<le> (stop - i - 1) div step"
      using True 1(2) by (simp add: pos_imp_zdiv_nonneg_iff)
    have shift: "stop - i + step - 1 = stop - i - 1 + step"
      by simp
    have "(stop - i + step - 1) div step = (stop - i - 1) div step + 1"
      unfolding shift using 1(2) by simp
    then show ?thesis
      unfolding eq using ih nn by (simp add: algebra_simps)
  qed
qed

lemma range_up_lower: "f \<in> set (range_up a b s) \<Longrightarrow> a \<le> f"
proof (induction a b s rule: range_up.induct)
  case (1 i stop step)
  show ?case
  proof (cases "0 < step \<and> i < stop")
    case False
    then show ?thesis using 1(2) by (subst (asm) range_up.simps) simp
  next
    case True
    then have "f = i \<or> f \<in> set (range_up (i + step) stop step)"
      using 1(2) by (subst (asm) range_up.simps) simp
    then show ?thesis using 1(1) True by auto
  qed
qed

lemma range_up_sorted: "sorted_wrt (<) (range_up a b s)"
proof (induction a b s rule: range_up.induct)
  case (1 i stop step)
  show ?case
  proof (cases "0 < step \<and> i < stop")
    case False
    then show ?thesis by (simp add: range_up_Nil)
  next
    case True
    have eq: "range_up i stop step = i # range_up (i + step) stop step"
      using True by (simp add: range_up_Cons)
    have "\<And>f. f \<in> set (range_up (i + step) stop step) \<Longrightarrow> i < f"
      using range_up_lower True by fastforce
    then show ?thesis
      unfolding eq using 1 True by simp
  qed
qed

subsection \<open>One pass of the loop\<close>

lemma aim_camera_location:
  "location (cam (aim_camera h T w)) =
     (at0 T, at1 T - CAMERA_DISTANCE, at2 T + CAMERA_HEIGHT_OFFSET)"
  by (simp add: aim_camera_def Let_def set_location_def set_rotation_euler_def)

lemma aim_camera_rotation:
  "rotation_euler (cam (aim_camera h T w)) =
     to_euler h (to_track_quat h (0, CAMERA_DISTANCE, - CAMERA_HEIGHT_OFFSET) ''-Z'' ''Y'')"
  by (simp add: aim_camera_def Let_def set_location_def set_rotation_euler_def)

lemma aim_camera_animation_data:
  "animation_data (cam (aim_camera h T w)) = animation_data (cam w)"
  by (simp add: aim_camera_def Let_def set_location_def set_rotation_euler_def)

lemma aim_camera_trace:
  "trace (aim_camera h T w) = trace w @
     [SetLocation (at0 T, at1 T - CAMERA_DISTANCE, at2 T + CAMERA_HEIGHT_OFFSET),
      ToTrackQuat (0, CAMERA_DISTANCE, - CAMERA_HEIGHT_OFFSET) ''-Z'' ''Y'',
      SetRotationEuler
        (to_euler h (to_track_quat h (0, CAMERA_DISTANCE, - CAMERA_HEIGHT_OFFSET) ''-Z'' ''Y''))]"
  by (simp add: aim_camera_def Let_def set_location_def set_rotation_euler_def)

lemma keyframes_aim_camera: "keyframes (aim_camera h T w) = keyframes w"
  by (simp add: keyframes_def aim_camera_animation_data)

lemma keyframe_insert_location:
  "keyframe_insert ''location'' f w =
     emit (KeyframeInsert ''location'' f)
       (w\<lparr>cam := (cam w)\<lparr>animation_data :=
              Some ((keyframes w)((''location'', f) \<mapsto> location (cam w)))\<rparr>\<rparr>)"
  by (simp add: keyframe_insert_def camera_property_def)

lemma keyframe_insert_rotation:
  "keyframe_insert ''rotation_euler'' f w =
     emit (KeyframeInsert ''rotation_euler'' f)
       (w\<lparr>cam := (cam w)\<lparr>animation_data :=
              Some ((keyframes w)((''rotation_euler'', f) \<mapsto> rotation_euler (cam w)))\<rparr>\<rparr>)"
  by (simp add: keyframe_insert_def camera_property_def)

lemma track_frame_trace:
  "trace (track_frame h target bone f w) = trace w @ frame_calls h target bone f"
  by (simp add: track_frame_def Let_def frame_set_def keyframe_insert_location
      keyframe_insert_rotation aim_camera_trace frame_calls_def)

lemma track_frame_keyframes:
  "keyframes (track_frame h target bone f w) =
     (keyframes w)
       ((''location'', f) \<mapsto>
          (at0 (read_target_loc (target f) bone),
           at1 (read_target_loc (target f) bone) - CAMERA_DISTANCE,
           at2 (read_target_loc (target f) bone) + CAMERA_HEIGHT_OFFSET),
        (''rotation_euler'', f) \<mapsto>
          to_euler h
            (to_track_quat h (0, CAMERA_DISTANCE, - CAMERA_HEIGHT_OFFSET) ''-Z'' ''Y''))"
  by (simp add: track_frame_def Let_def frame_set_def keyframe_insert_location
      keyframe_insert_rotation aim_camera_location aim_camera_rotation keyframes_aim_camera
      keyframes_def aim_camera_animation_data)

lemma aim_camera_frame_current: "frame_current (aim_camera h T w) = frame_current w"
  by (simp add: aim_camera_def Let_def set_location_def set_rotation_euler_def)

lemma track_frame_frame_current: "frame_current (track_frame h target bone f w) = f"
  by (simp add: track_frame_def Let_def frame_set_def keyframe_insert_location
      keyframe_insert_rotation aim_camera_frame_current)

lemma track_frame_location:
  "location (cam (track_frame h target bone f w)) =
     (at0 (read_target_loc (target f) bone),
      at1 (read_target_loc (target f) bone) - CAMERA_DISTANCE,
      at2 (read_target_loc (target f) bone) + CAMERA_HEIGHT_OFFSET)"
  by (simp add: track_frame_def Let_def frame_set_def keyframe_insert_location
      keyframe_insert_rotation aim_camera_location)

lemma track_frame_calls_made:
  "calls_made w (track_frame h target bone f w) = frame_calls h target bone f"
  by (simp add: calls_made_def track_frame_trace)

subsection \<open>The sampled frames and the whole loop\<close>

lemma range_up_nth:
  "k < length (range_up a b s) \<Longrightarrow> range_up a b s ! k = a + s * int k"
proof (induction a b s arbitrary: k rule: range_up.induct)
  case (1 i stop step)
  show ?case
  proof (cases "0 < step \<and> i < stop")
    case False
    then show ?thesis using 1(2) by (simp add: range_up_Nil)
  next
    case True
    have eq: "range_up i stop step = i # range_up (i + step) stop step"
      using True by (simp add: range_up_Cons)
    show ?thesis
    proof (cases k)
      case 0
      then show ?thesis by (simp add: eq)
    next
      case (Suc j)
      then have "j < length (range_up (i + step) stop step)"
        using 1(2) by (simp add: eq)
      then have "range_up (i + step) stop step ! j = i + step + step * int j"
        using 1(1) True by simp
      then show ?thesis by (simp add: eq Suc algebra_simps)
    qed
  qed
qed

lemma range_up_eq_map:
  assumes "0 < s"
  shows "range_up a b s = map (\<lambda>k. a + s * int k) [0 ..< nat ((b - a + s - 1) div s)]"
proof -
  have len: "length (range_up a b s) = nat ((b - a + s - 1) div s)"
    using range_up_length [OF assms, of a b] by linarith
  show ?thesis
    by (rule nth_equalityI) (simp_all add: len range_up_nth)
qed

lemma py_range_sampled:
  "py_range frame_start (frame_end + 1) FRAME_STEP = Inr (sampled_frames frame_start frame_end)"
proof -
  have "(frame_end + 1 - frame_start + 5 - 1) div 5 = (frame_end - frame_start) div 5 + 1"
    by linarith
  then show ?thesis
    by (simp add: py_range_def FRAME_STEP_def sampled_frames_def range_up_eq_map)
qed

lemma sampled_frames_range:
  "sampled_frames frame_start frame_end = range_up frame_start (frame_end + 1) FRAME_STEP"
  using py_range_sampled [of frame_start frame_end] by (simp add: py_range_def FRAME_STEP_def)

lemma sampled_frames_member:
  "f \<in> set (sampled_frames frame_start frame_end) \<longleftrightarrow>
     frame_start \<le> f \<and> f \<le> frame_end \<and> (f - frame_start) mod 5 = 0"
  by (auto simp add: sampled_frames_range FRAME_STEP_def range_up_set)

lemma sampled_frames_length:
  "int (length (sampled_frames frame_start frame_end)) =
     max 0 ((frame_end - frame_start) div 5 + 1)"
  by (simp add: sampled_frames_def FRAME_STEP_def)

lemma sampled_frames_sorted: "sorted_wrt (<) (sampled_frames frame_start frame_end)"
  by (simp add: sampled_frames_range range_up_sorted)

lemma sampled_frames_reversed:
  "frame_end < frame_start \<Longrightarrow> sampled_frames frame_start frame_end = []"
proof -
  assume "frame_end < frame_start"
  then have "(frame_end - frame_start) div 5 + 1 \<le> 0" by linarith
  then show ?thesis by (simp add: sampled_frames_def FRAME_STEP_def)
qed

lemma fold_track_trace:
  "trace (fold (track_frame h target bone) fs w) =
     trace w @ concat (map (frame_calls h target bone) fs)"
  by (induction fs arbitrary: w) (simp_all add: track_frame_trace)

lemma fold_track_keyframes:
  "keyframes (fold (track_frame h target bone) fs w) (p, g) =
     (if g \<in> set fs \<and> p = ''location''
      then Some (at0 (read_target_loc (target g) bone),
                 at1 (read_target_loc (target g) bone) - CAMERA_DISTANCE,
                 at2 (read_target_loc (target g) bone) + CAMERA_HEIGHT_OFFSET)
      else if g \<in> set fs \<and> p = ''rotation_euler''
      then Some (to_euler h
                   (to_track_quat h (0, CAMERA_DISTANCE, - CAMERA_HEIGHT_OFFSET) ''-Z'' ''Y''))
      else keyframes w (p, g))"
proof (induction fs arbitrary: w)
  case Nil
  then show ?case by simp
next
  case (Cons f fs)
  show ?case
    by (simp add: Cons.IH track_frame_keyframes)
qed

lemma setup_run:
  "setup_camera_tracking h target bone frame_start frame_end w =
     Inr (emit (EchoBaked ((frame_end - frame_start) div FRAME_STEP + 1))
            (fold (track_frame h target bone) (sampled_frames frame_start frame_end)
               (prepared frame_start frame_end w)))"
  by (simp add: setup_camera_tracking_def Let_def py_range_sampled prepared_def)

lemma keyframes_prepared: "keyframes (prepared fs fe w) = Map.empty"
  by (auto simp add: prepared_def keyframes_def animation_data_clear_def)

lemma trace_prepared:
  "trace (prepared fs fe w) = trace w @ EchoSetup fs fe #
     (if animation_data (cam w) \<noteq> None then [AnimationDataClear] else [])"
  by (simp add: prepared_def animation_data_clear_def)

subsection \<open>The calls of a whole run\<close>

lemma keyframe_inserts_append:
  "keyframe_inserts (xs @ ys) = keyframe_inserts xs @ keyframe_inserts ys"
  by (induction xs rule: keyframe_inserts.induct) simp_all

lemma keyframe_inserts_frame_calls:
  "keyframe_inserts (frame_calls h target bone f) = [(''location'', f), (''rotation_euler'', f)]"
  by (simp add: frame_calls_def Let_def)

lemma keyframe_inserts_loop:
  "keyframe_inserts (concat (map (frame_calls h target bone) fs)) =
     concat (map (\<lambda>f. [(''location'', f), (''rotation_euler'', f)]) fs)"
  by (induction fs) (simp_all add: keyframe_inserts_append keyframe_inserts_frame_calls)

lemma filter_scene_frame_calls:
  "filter scene_event (frame_calls h target bone f) =
     [FrameSet f, ReadTarget f (read_target_loc (target f) bone)]"
  by (simp add: frame_calls_def Let_def)

lemma filter_scene_loop:
  "filter scene_event (concat (map (frame_calls h target bone) fs)) =
     concat (map (\<lambda>f. [FrameSet f, ReadTarget f (read_target_loc (target f) bone)]) fs)"
  by (induction fs) (simp_all add: filter_scene_frame_calls)




lemma setup_returns:
  "\<exists>w'. setup_camera_tracking h target bone frame_start frame_end w = Inr w'"
  by (simp add: setup_run)

lemma setup_calls_made:
  "setup_camera_tracking h target bone frame_start frame_end w = Inr w' \<Longrightarrow>
   calls_made w w' =
     EchoSetup frame_start frame_end #
     (if animation_data (cam w) \<noteq> None then [AnimationDataClear] else []) @
     concat (map (frame_calls h target bone) (sampled_frames frame_start frame_end)) @
     [EchoBaked ((frame_end - frame_start) div FRAME_STEP + 1)]"
  by (auto simp add: setup_run calls_made_def fold_track_trace trace_prepared)

lemma setup_keyframes:
  "setup_camera_tracking h target bone frame_start frame_end w = Inr w' \<Longrightarrow>
   keyframes w' (p, g) =
     (if g \<in> set (sampled_frames frame_start frame_end) \<and> p = ''location''
      then Some (at0 (read_target_loc (target g) bone),
                 at1 (read_target_loc (target g) bone) - CAMERA_DISTANCE,
                 at2 (read_target_loc (target g) bone) + CAMERA_HEIGHT_OFFSET)
      else if g \<in> set (sampled_frames frame_start frame_end) \<and> p = ''rotation_euler''
      then Some (to_euler h
                   (to_track_quat h (0, CAMERA_DISTANCE, - CAMERA_HEIGHT_OFFSET) ''-Z'' ''Y''))
      else None)"
proof -
  assume "setup_camera_tracking h target bone frame_start frame_end w = Inr w'"
  then have "keyframes w' =
      keyframes (fold (track_frame h target bone) (sampled_frames frame_start frame_end)
        (prepared frame_start frame_end w))"
    by (auto simp add: setup_run keyframes_def)
  then show ?thesis
    by (simp only: fold_track_keyframes keyframes_prepared)
qed

lemma setup_last_call:
  "setup_camera_tracking h target bone frame_start frame_end w = Inr w' \<Longrightarrow>
   last (trace w') = EchoBaked ((frame_end - frame_start) div FRAME_STEP + 1)"
  by (auto simp add: setup_run)

lemma setup_keyframe_inserts:
  "setup_camera_tracking h target bone frame_start frame_end w = Inr w' \<Longrightarrow>
   keyframe_inserts (calls_made w w') =
     concat (map (\<lambda>f. [(''location'', f), (''rotation_euler'', f)])
       (sampled_frames frame_start frame_end))"
  by (simp add: setup_calls_made keyframe_inserts_append keyframe_inserts_loop)


lemma setup_scene_events:
  "setup_camera_tracking h target bone frame_start frame_end w = Inr w' \<Longrightarrow>
   filter scene_event (calls_made w w') =
     concat (map (\<lambda>f. [FrameSet f, ReadTarget f (read_target_loc (target f) bone)])
       (sampled_frames frame_start frame_end))"
  by (simp add: setup_calls_made filter_scene_loop)

lemma sampled_frames_distinct: "distinct (sampled_frames frame_start frame_end)"
  using sampled_frames_sorted [of frame_start frame_end]
  by (simp add: strict_sorted_iff)

lemma setup_reversed:
  assumes "frame_end < frame_start"
    and run: "setup_camera_tracking h target bone frame_start frame_end w = Inr w'"
  shows "keyframe_inserts (calls_made w w') = []"
    and "keyframes w' = Map.empty"
    and "animation_data (cam w') = None"
proof -
  have none: "sampled_frames frame_start frame_end = []"
    using assms(1) by (rule sampled_frames_reversed)
  show "keyframe_inserts (calls_made w w') = []"
    by (simp add: setup_keyframe_inserts [OF run] none)
  show "keyframes w' = Map.empty"
    by (rule ext) (simp add: setup_keyframes [OF run, of "fst k" "snd k" for k, simplified] none)
  show "animation_data (cam w') = None"
    using run by (auto simp add: setup_run none prepared_def animation_data_clear_def)
qed

lemma read_target_loc_missing:
  "pose_bones tgt b = None \<Longrightarrow> read_target_loc tgt (Some b) = translation (matrix_world tgt)"
  by (simp add: read_target_loc_def get_target_world_location_def)

lemma fold_track_frame_current:
  "frame_current (fold (track_frame h target bone) fs w) =
     (if fs = [] then frame_current w else last fs)"
  by (induction fs arbitrary: w) (simp_all add: track_frame_frame_current)

lemma frame_current_prepared: "frame_current (prepared fs fe w) = frame_current w"
  by (simp add: prepared_def animation_data_clear_def)

lemma setup_frame_current:
  "setup_camera_tracking h target bone frame_start frame_end w = Inr w' \<Longrightarrow>
   frame_current w' =
     (if sampled_frames frame_start frame_end = [] then frame_current w
      else last (sampled_frames frame_start frame_end))"
  by (auto simp add: setup_run fold_track_frame_current frame_current_prepared)

subsection \<open>Binary64 rounding\<close>

lemma round_even_error: "\<bar>of_int (round_even t) - t\<bar> \<le> 1 / 2"
  unfolding round_even_def Let_def by (auto; linarith)

lemma ulp_double_pos: "0 < ulp_double x"
  by (simp add: ulp_double_def)

lemma ulp_double_le:
  assumes "x \<noteq> 0"
  shows "ulp_double x \<le> \<bar>x\<bar> / 2 ^ 52"
proof -
  have "of_int \<lfloor>log 2 \<bar>x\<bar>\<rfloor> \<le> log 2 \<bar>x\<bar>"
    by simp
  then have "2 powr (of_int \<lfloor>log 2 \<bar>x\<bar>\<rfloor> - 52) \<le> 2 powr (log 2 \<bar>x\<bar> - 52)"
    by simp
  also have "\<dots> = \<bar>x\<bar> / 2 ^ 52"
    using assms by (simp add: powr_diff)
  finally show ?thesis
    by (simp add: ulp_double_def)
qed

lemma round_double_error: "\<bar>round_double x - x\<bar> \<le> \<bar>x\<bar> / 2 ^ 53"
proof (cases "x = 0")
  case True
  then show ?thesis by (simp add: round_double_def)
next
  case False
  define u where "u = ulp_double x"
  have u: "0 < u" by (simp add: u_def ulp_double_pos)
  have "round_double x - x = (of_int (round_even (x / u)) - x / u) * u"
    using False u by (simp add: round_double_def u_def algebra_simps)
  then have "\<bar>round_double x - x\<bar> = \<bar>of_int (round_even (x / u)) - x / u\<bar> * u"
    using u by (simp add: abs_mult)
  also have "\<dots> \<le> 1 / 2 * u"
    using u round_even_error [of "x / u"] by (intro mult_right_mono) simp_all
  also have "\<dots> \<le> 1 / 2 * (\<bar>x\<bar> / 2 ^ 52)"
    using ulp_double_le [OF False] by (simp add: u_def)
  finally show ?thesis by simp
qed

lemma round_double_eq_0_iff: "round_double x = 0 \<longleftrightarrow> x = 0"
proof
  assume z: "round_double x = 0"
  show "x = 0"
  proof (rule ccontr)
    assume nz: "x \<noteq> 0"
    have "\<bar>x\<bar> \<le> \<bar>x\<bar> / 2 ^ 53"
      using round_double_error [of x] z by simp
    then show False using nz by simp
  qed
next
  assume "x = 0"
  then show "round_double x = 0" by (simp add: round_double_def)
qed

lemma fsub_eq_0_iff: "fsub a b = 0 \<longleftrightarrow> a = b"
  by (simp add: fsub_def round_double_eq_0_iff)

lemma ulp_double_eval:
  assumes "2 ^ k \<le> \<bar>x\<bar>" and "\<bar>x\<bar> < 2 ^ Suc k" and "52 \<le> k"
  shows "ulp_double x = 2 ^ (k - 52)"
proof -
  have "(0::real) < 2 ^ k"
    by simp
  then have pos: "0 < \<bar>x\<bar>"
    using assms(1) by linarith
  have lo: "2 powr real_of_int (int k) = (2::real) ^ k"
    by (simp add: powr_realpow)
  have hi: "2 powr real_of_int (int k + 1) = (2::real) ^ Suc k"
    by (simp add: powr_add powr_realpow)
  have "2 powr real_of_int (int k) \<le> \<bar>x\<bar> \<and> \<bar>x\<bar> < 2 powr real_of_int (int k + 1)"
    using assms(1,2) by (simp only: lo hi)
  moreover have "(1::real) < 2"
    by simp
  ultimately have "\<lfloor>log 2 \<bar>x\<bar>\<rfloor> = int k"
    using floor_log_eq_powr_iff [OF pos, of 2 "int k"] by blast
  then have "ulp_double x = 2 powr (real k - 52)"
    by (simp add: ulp_double_def)
  also have "real k - 52 = real (k - 52)"
    using assms(3) by simp
  finally show ?thesis
    by (simp only: powr_realpow zero_less_numeral)
qed

lemma round_double_eval:
  assumes "x \<noteq> 0" and "ulp_double x = u" and "round_even (x / u) = n"
  shows "round_double x = of_int n * u"
  using assms by (simp add: round_double_def)

lemma round_even_eval:
  assumes "of_int n \<le> t" and "t < of_int n + 1" and "t - of_int n \<noteq> 1 / 2"
  shows "round_even t = (if t - of_int n < 1 / 2 then n else n + 1)"
proof -
  have "\<lfloor>t\<rfloor> = n"
    using assms(1,2) by (rule floor_unique)
  then show ?thesis
    using assms(3) by (simp add: round_even_def Let_def)
qed

lemma round_double_absorbs_distance: "round_double (2 ^ 60 - 2.5) = 2 ^ 60"
proof -
  have u: "ulp_double (2 ^ 60 - 2.5) = 2 ^ (59 - 52)"
    by (rule ulp_double_eval) simp_all
  have r: "round_even ((2 ^ 60 - 2.5) / 2 ^ (59 - 52)) = 2 ^ 53"
    by (subst round_even_eval [where n = "2 ^ 53 - 1"]) simp_all
  have "round_double (2 ^ 60 - 2.5) = of_int (2 ^ 53) * 2 ^ (59 - 52)"
    by (rule round_double_eval [OF _ u r]) simp
  then show ?thesis by simp
qed

lemma round_double_absorbs_height: "round_double (2 ^ 60 + 1.5) = 2 ^ 60"
proof -
  have u: "ulp_double (2 ^ 60 + 1.5) = 2 ^ (60 - 52)"
    by (rule ulp_double_eval) simp_all
  have r: "round_even ((2 ^ 60 + 1.5) / 2 ^ (60 - 52)) = 2 ^ 52"
    by (subst round_even_eval [where n = "2 ^ 52"]) simp_all
  have "round_double (2 ^ 60 + 1.5) = of_int (2 ^ 52) * 2 ^ (60 - 52)"
    by (rule round_double_eval [OF _ u r]) simp
  then show ?thesis by simp
qed


subsection \<open>The small scene\<close>


lemma walker_origin: "translation (matrix_world (walker f)) = (real_of_int f, 0, 0)"
  by (simp add: walker_def translation_def translation_matrix_def)

text \<open>
  A run over the frames 1 to 6, computed from the definitions alone: the camera the run
  starts with carries a keyframe, so its animation data is cleared first.
\<close>

lemma small_run_calls:
  "map_sum id trace
     (setup_camera_tracking plain_host walker (Some TARGET_BONE_NAME) 1 6 used_world) =
   Inr [EchoSetup 1 6, AnimationDataClear,
        FrameSet 1, ReadTarget 1 (1, 0, 1), SetLocation (1, - 2.5, 2.5),
        ToTrackQuat (0, 2.5, - 1.5) ''-Z'' ''Y'', SetRotationEuler (0, 2.5, - 1.5),
        KeyframeInsert ''location'' 1, KeyframeInsert ''rotation_euler'' 1,
        FrameSet 6, ReadTarget 6 (6, 0, 1), SetLocation (6, - 2.5, 2.5),
        ToTrackQuat (0, 2.5, - 1.5) ''-Z'' ''Y'', SetRotationEuler (0, 2.5, - 1.5),
        KeyframeInsert ''location'' 6, KeyframeInsert ''rotation_euler'' 6,
        EchoBaked 2]"
  by (simp add: setup_camera_tracking_def py_range_def FRAME_STEP_def range_up.simps
      track_frame_def aim_camera_def frame_set_def set_location_def set_rotation_euler_def
      keyframe_insert_def camera_property_def animation_data_clear_def emit_def
      read_target_loc_def get_target_world_location_def
      walker_def plain_host_def used_world_def TARGET_BONE_NAME_def translation_def
      matmul_def translation_matrix_def CAMERA_DISTANCE_def CAMERA_HEIGHT_OFFSET_def
      at0_def at1_def at2_def Let_def)

text \<open>
  A run over the frames 10 to 1: nothing but the two messages and the clearing of the
  animation data; the closing message reports a count of -1.
\<close>

lemma reversed_run_calls:
  "map_sum id (\<lambda>w. (trace w, animation_data (cam w)))
     (setup_camera_tracking plain_host walker (Some TARGET_BONE_NAME) 10 1 used_world) =
   Inr ([EchoSetup 10 1, AnimationDataClear, EchoBaked (- 1)], None)"
  by (simp add: setup_camera_tracking_def py_range_def FRAME_STEP_def range_up.simps
      animation_data_clear_def emit_def used_world_def Let_def)

section \<open>The claims\<close>

subsection \<open>Camera position\<close>



subsection \<open>Number of keyframes\<close>

text \<open>
  C3. For \<open>frame_start \<le> frame_end\<close> the run inserts one pair of keyframes (location, then
  rotation) at each sampled frame and at no other, the sampled frames are pairwise
  different, their number is \<open>(frame_end - frame_start) div FRAME_STEP + 1\<close>, and that
  number is the one the closing message reports. For the range 1 to 250 it is 50.
\<close>

theorem baked_keyframe_count:
  "(frame_start \<le> frame_end \<longrightarrow>
      (\<exists>w'. setup_camera_tracking h target bone frame_start frame_end w = Inr w' \<and>
            keyframe_inserts (calls_made w w') =
              concat (map (\<lambda>f. [(''location'', f), (''rotation_euler'', f)])
                (sampled_frames frame_start frame_end)) \<and>
            {f. keyframes w' (''location'', f) \<noteq> None \<and>
                keyframes w' (''rotation_euler'', f) \<noteq> None} =
              set (sampled_frames frame_start frame_end) \<and>
            distinct (sampled_frames frame_start frame_end) \<and>
            int (length (sampled_frames frame_start frame_end)) =
              (frame_end - frame_start) div FRAME_STEP + 1 \<and>
            last (trace w') =
              EchoBaked (int (length (sampled_frames frame_start frame_end))))) \<and>
   (\<exists>w'. setup_camera_tracking h target bone 1 250 w = Inr w' \<and>
         keyframe_inserts (calls_made w w') =
           concat (map (\<lambda>f. [(''location'', f), (''rotation_euler'', f)])
             (sampled_frames 1 250)) \<and>
         length (sampled_frames 1 250) = 50 \<and>
         last (trace w') = EchoBaked 50)"
proof (intro conjI impI)
  assume le: "frame_start \<le> frame_end"
  obtain w' where run: "setup_camera_tracking h target bone frame_start frame_end w = Inr w'"
    using setup_returns by blast
  have "0 \<le> (frame_end - frame_start) div 5"
    using le by (simp add: pos_imp_zdiv_nonneg_iff)
  then have len: "int (length (sampled_frames frame_start frame_end)) =
      (frame_end - frame_start) div FRAME_STEP + 1"
    by (simp add: sampled_frames_length FRAME_STEP_def)
  have "\<And>f. (keyframes w' (''location'', f) \<noteq> None \<and>
      keyframes w' (''rotation_euler'', f) \<noteq> None) =
      (f \<in> set (sampled_frames frame_start frame_end))"
    by (simp add: setup_keyframes [OF run] del: not_None_eq)
  then have keys: "{f. keyframes w' (''location'', f) \<noteq> None \<and>
      keyframes w' (''rotation_euler'', f) \<noteq> None} =
      set (sampled_frames frame_start frame_end)"
    by simp
  show "\<exists>w'. setup_camera_tracking h target bone frame_start frame_end w = Inr w' \<and>
      keyframe_inserts (calls_made w w') =
        concat (map (\<lambda>f. [(''location'', f), (''rotation_euler'', f)])
          (sampled_frames frame_start frame_end)) \<and>
      {f. keyframes w' (''location'', f) \<noteq> None \<and>
          keyframes w' (''rotation_euler'', f) \<noteq> None} =
        set (sampled_frames frame_start frame_end) \<and>
      distinct (sampled_frames frame_start frame_end) \<and>
      int (length (sampled_frames frame_start frame_end)) =
        (frame_end - frame_start) div FRAME_STEP + 1 \<and>
      last (trace w') = EchoBaked (int (length (sampled_frames frame_start frame_end)))"
    using run keys len setup_keyframe_inserts [OF run] setup_last_call [OF run]
      sampled_frames_distinct [of frame_start frame_end]
    by (intro exI [of _ w']) (simp only: simp_thms)
next
  obtain w' where run: "setup_camera_tracking h target bone 1 250 w = Inr w'"
    using setup_returns by blast
  have len: "length (sampled_frames 1 250) = 50"
    by (simp add: sampled_frames_def FRAME_STEP_def)
  show "\<exists>w'. setup_camera_tracking h target bone 1 250 w = Inr w' \<and>
      keyframe_inserts (calls_made w w') =
        concat (map (\<lambda>f. [(''location'', f), (''rotation_euler'', f)])
          (sampled_frames 1 250)) \<and>
      length (sampled_frames 1 250) = 50 \<and>
      last (trace w') = EchoBaked 50"
    using run len setup_keyframe_inserts [OF run] setup_last_call [OF run]
    by (intro exI [of _ w']) (simp add: FRAME_STEP_def)
qed

text \<open>
  The range 1 to 11 gives the three pairs at frames 1, 6 and 11.
\<close>

theorem baked_keyframe_count_witness:
  "(1::int) \<le> 11 \<and>
   (\<exists>w'. setup_camera_tracking plain_host walker (Some TARGET_BONE_NAME) 1 11 used_world =
            Inr w' \<and>
         keyframe_inserts (calls_made used_world w') =
           [(''location'', 1), (''rotation_euler'', 1),
            (''location'', 6), (''rotation_euler'', 6),
            (''location'', 11), (''rotation_euler'', 11)] \<and>
         last (trace w') = EchoBaked 3)"
proof -
  have frames: "sampled_frames 1 11 = [1, 6, 11]"
    by (simp add: sampled_frames_def FRAME_STEP_def upt_rec)
  show ?thesis
    using baked_keyframe_count [where frame_start = 1 and frame_end = 11 and h = plain_host
        and target = walker and bone = "Some TARGET_BONE_NAME" and w = used_world]
    by (auto simp add: frames)
qed

subsection \<open>A range that ends before it starts\<close>

text \<open>
  C4. For \<open>frame_end < frame_start\<close> the run returns normally, inserts no keyframe and
  leaves the camera without keyframes.
\<close>

theorem reversed_range_bakes_nothing:
  assumes "frame_end < frame_start"
  shows "\<exists>w'. setup_camera_tracking h target bone frame_start frame_end w = Inr w' \<and>
           keyframe_inserts (calls_made w w') = [] \<and>
           keyframes w' = Map.empty \<and>
           animation_data (cam w') = None"
proof -
  obtain w' where run: "setup_camera_tracking h target bone frame_start frame_end w = Inr w'"
    using setup_returns by blast
  show ?thesis
    using run setup_reversed [OF assms run] by blast
qed

text \<open>
  The range 10 to 1, on a camera that carried a keyframe before.
\<close>

theorem reversed_range_bakes_nothing_witness:
  "(1::int) < 10 \<and>
   (\<exists>w'. setup_camera_tracking plain_host walker (Some TARGET_BONE_NAME) 10 1 used_world =
            Inr w' \<and>
         keyframe_inserts (calls_made used_world w') = [] \<and>
         keyframes w' = Map.empty)"
  using reversed_range_bakes_nothing [where frame_start = 10 and frame_end = 1
      and h = plain_host and target = walker and bone = "Some TARGET_BONE_NAME"
      and w = used_world]
  by auto

subsection \<open>A bone that is not there\<close>

text \<open>
  C6. When the armature has no pose bone of the given name,
  \<open>get_target_world_location\<close> returns the translation of the armature's own world matrix;
  and when that holds at the sampled frames the run returns normally, with every location
  key computed from the armature's origin.
\<close>

theorem missing_bone_falls_back:
  "(pose_bones armature bone = None \<longrightarrow>
      get_target_world_location armature bone = translation (matrix_world armature)) \<and>
   ((\<forall>f \<in> set (sampled_frames frame_start frame_end). pose_bones (target f) bone = None) \<longrightarrow>
      (\<exists>w'. setup_camera_tracking h target (Some bone) frame_start frame_end w = Inr w' \<and>
            (\<forall>f \<in> set (sampled_frames frame_start frame_end).
               keyframes w' (''location'', f) =
                 Some (at0 (translation (matrix_world (target f))),
                       at1 (translation (matrix_world (target f))) - CAMERA_DISTANCE,
                       at2 (translation (matrix_world (target f))) + CAMERA_HEIGHT_OFFSET))))"
proof (intro conjI impI)
  assume "pose_bones armature bone = None"
  then show "get_target_world_location armature bone = translation (matrix_world armature)"
    by (simp add: get_target_world_location_def)
next
  assume missing:
    "\<forall>f \<in> set (sampled_frames frame_start frame_end). pose_bones (target f) bone = None"
  obtain w' where
    run: "setup_camera_tracking h target (Some bone) frame_start frame_end w = Inr w'"
    using setup_returns by blast
  have "\<forall>f \<in> set (sampled_frames frame_start frame_end).
      keyframes w' (''location'', f) =
        Some (at0 (translation (matrix_world (target f))),
              at1 (translation (matrix_world (target f))) - CAMERA_DISTANCE,
              at2 (translation (matrix_world (target f))) + CAMERA_HEIGHT_OFFSET)"
    using missing by (simp add: setup_keyframes [OF run] read_target_loc_missing)
  then show "\<exists>w'. setup_camera_tracking h target (Some bone) frame_start frame_end w = Inr w' \<and>
      (\<forall>f \<in> set (sampled_frames frame_start frame_end).
         keyframes w' (''location'', f) =
           Some (at0 (translation (matrix_world (target f))),
                 at1 (translation (matrix_world (target f))) - CAMERA_DISTANCE,
                 at2 (translation (matrix_world (target f))) + CAMERA_HEIGHT_OFFSET))"
    using run by blast
qed

text \<open>
  The walker has no bone called Tail; at frame 6 its origin is \<open>(6, 0, 0)\<close>.
\<close>

theorem missing_bone_falls_back_witness:
  "obj_type (walker 6) = ''ARMATURE'' \<and>
   pose_bones (walker 6) ''Tail'' = None \<and>
   get_target_world_location (walker 6) ''Tail'' = (6, 0, 0) \<and>
   6 \<in> set (sampled_frames 1 11) \<and>
   (\<exists>w'. setup_camera_tracking plain_host walker (Some ''Tail'') 1 11 used_world = Inr w' \<and>
         keyframes w' (''location'', 6) = Some (6, - 2.5, 1.5))"
proof -
  have no_bone: "\<And>f. pose_bones (walker f) ''Tail'' = None"
    by (simp add: walker_def TARGET_BONE_NAME_def)
  have mem: "6 \<in> set (sampled_frames 1 11)"
    by (simp add: sampled_frames_member)
  show ?thesis
    using missing_bone_falls_back [where armature = "walker 6" and bone = "''Tail''"
        and frame_start = 1 and frame_end = 11 and target = walker and h = plain_host
        and w = used_world] no_bone mem walker_origin [of 6]
    by (auto simp add: CAMERA_DISTANCE_def CAMERA_HEIGHT_OFFSET_def walker_def)
qed

subsection \<open>The look direction\<close>


text \<open>
  The same holds for every way the application may store the location, as long as it
  returns \<open>0\<close> and \<open>2^60\<close> as they were written; both are values of single precision too.
\<close>

lemma look_direction_zero_any_storage:
  assumes "stored 0 = 0" and "stored (2 ^ 60) = 2 ^ 60"
  shows "look_direction_fp stored CAMERA_DISTANCE CAMERA_HEIGHT_OFFSET (0, 2 ^ 60, 2 ^ 60) =
    (0, 0, 0)"
proof -
  have a: "fsub (2 ^ 60) CAMERA_DISTANCE = 2 ^ 60"
    unfolding fsub_def CAMERA_DISTANCE_def by (rule round_double_absorbs_distance)
  have b: "fadd (2 ^ 60) CAMERA_HEIGHT_OFFSET = 2 ^ 60"
    unfolding fadd_def CAMERA_HEIGHT_OFFSET_def by (rule round_double_absorbs_height)
  have "look_direction_fp stored CAMERA_DISTANCE CAMERA_HEIGHT_OFFSET (0, 2 ^ 60, 2 ^ 60) =
      (fsub 0 0, fsub (2 ^ 60) (2 ^ 60), fsub (2 ^ 60) (2 ^ 60))"
    by (simp only: look_direction_fp_def camera_location_fp_def Let_def at_simps a b assms)
  then show ?thesis
    by (simp add: fsub_eq_0_iff)
qed



subsection \<open>Order of the frames\<close>

text \<open>
  C8. The sampled frames are strictly increasing and the run visits them in that order. In
  each pass the scene is moved to the frame first and the target is read then: the calls
  of a pass begin with \<open>frame_set\<close> to the frame and the read, made with the scene at that
  frame; whatever frame the scene was at before the pass, it is at the frame of the pass
  afterwards and the location the camera receives is computed from the target as
  evaluated at that frame. Over the whole run the reads return, frame by frame, the
  target's location at that frame, the location keys are computed from them, and the
  scene ends at the last sampled frame.
\<close>

theorem frames_visited_in_order:
  "\<exists>w'. setup_camera_tracking h target bone frame_start frame_end w = Inr w' \<and>
        filter scene_event (calls_made w w') =
          concat (map (\<lambda>f. [FrameSet f, ReadTarget f (read_target_loc (target f) bone)])
            (sampled_frames frame_start frame_end)) \<and>
        sorted_wrt (<) (sampled_frames frame_start frame_end) \<and>
        frame_current w' =
          (if sampled_frames frame_start frame_end = [] then frame_current w
           else last (sampled_frames frame_start frame_end)) \<and>
        map (\<lambda>f. keyframes w' (''location'', f)) (sampled_frames frame_start frame_end) =
          map (\<lambda>f. Some (at0 (read_target_loc (target f) bone),
                         at1 (read_target_loc (target f) bone) - CAMERA_DISTANCE,
                         at2 (read_target_loc (target f) bone) + CAMERA_HEIGHT_OFFSET))
            (sampled_frames frame_start frame_end) \<and>
        take 2 (calls_made w (track_frame h target bone f w)) =
          [FrameSet f, ReadTarget f (read_target_loc (target f) bone)] \<and>
        frame_current (track_frame h target bone f w) = f \<and>
        location (cam (track_frame h target bone f w)) =
          (at0 (read_target_loc (target f) bone),
           at1 (read_target_loc (target f) bone) - CAMERA_DISTANCE,
           at2 (read_target_loc (target f) bone) + CAMERA_HEIGHT_OFFSET)"
proof -
  obtain w' where run: "setup_camera_tracking h target bone frame_start frame_end w = Inr w'"
    using setup_returns by blast
  have keys: "map (\<lambda>f. keyframes w' (''location'', f)) (sampled_frames frame_start frame_end) =
      map (\<lambda>f. Some (at0 (read_target_loc (target f) bone),
                     at1 (read_target_loc (target f) bone) - CAMERA_DISTANCE,
                     at2 (read_target_loc (target f) bone) + CAMERA_HEIGHT_OFFSET))
        (sampled_frames frame_start frame_end)"
    by (simp add: setup_keyframes [OF run])
  have pass: "take 2 (calls_made w (track_frame h target bone f w)) =
      [FrameSet f, ReadTarget f (read_target_loc (target f) bone)]"
    by (simp add: track_frame_calls_made frame_calls_def Let_def)
  show ?thesis
    using run keys pass setup_scene_events [OF run] setup_frame_current [OF run]
      sampled_frames_sorted [of frame_start frame_end]
      track_frame_frame_current [of h target bone f w]
      track_frame_location [of h target bone f w]
    by (intro exI [of _ w']) (simp only: simp_thms)
qed

text \<open>
  On the small scene: the walker is somewhere else at frame 6 than at frame 0, so a read made
  before the scene is moved would not give the location above.
\<close>

lemma walker_moves: "read_target_loc (walker 6) bone \<noteq> read_target_loc (walker 0) bone"
  by (cases bone)
    (simp_all add: read_target_loc_def walker_def get_target_world_location_def
      TARGET_BONE_NAME_def translation_def matmul_def translation_matrix_def)

subsection \<open>Earlier keyframes\<close>

text \<open>
  C10. A run prints its opening message, clears the animation data the camera has, visits
  the sampled frames and prints its closing message. Afterwards the camera's keyframes are
  the two of each sampled frame and no other, whatever keyframes it carried before.
\<close>

theorem previous_keyframes_cleared:
  "\<exists>w'. setup_camera_tracking h target bone frame_start frame_end w = Inr w' \<and>
        calls_made w w' =
          EchoSetup frame_start frame_end #
          (if animation_data (cam w) \<noteq> None then [AnimationDataClear] else []) @
          concat (map (frame_calls h target bone) (sampled_frames frame_start frame_end)) @
          [EchoBaked ((frame_end - frame_start) div FRAME_STEP + 1)] \<and>
        keyframes w' =
          (\<lambda>(p, f).
             if f \<in> set (sampled_frames frame_start frame_end) \<and> p = ''location''
             then Some (at0 (read_target_loc (target f) bone),
                        at1 (read_target_loc (target f) bone) - CAMERA_DISTANCE,
                        at2 (read_target_loc (target f) bone) + CAMERA_HEIGHT_OFFSET)
             else if f \<in> set (sampled_frames frame_start frame_end) \<and> p = ''rotation_euler''
             then Some (to_euler h
                    (to_track_quat h (0, CAMERA_DISTANCE, - CAMERA_HEIGHT_OFFSET) ''-Z'' ''Y''))
             else None)"
proof -
  obtain w' where run: "setup_camera_tracking h target bone frame_start frame_end w = Inr w'"
    using setup_returns by blast
  have "keyframes w' k =
      (case k of (p, f) \<Rightarrow>
         if f \<in> set (sampled_frames frame_start frame_end) \<and> p = ''location''
         then Some (at0 (read_target_loc (target f) bone),
                    at1 (read_target_loc (target f) bone) - CAMERA_DISTANCE,
                    at2 (read_target_loc (target f) bone) + CAMERA_HEIGHT_OFFSET)
         else if f \<in> set (sampled_frames frame_start frame_end) \<and> p = ''rotation_euler''
         then Some (to_euler h
                (to_track_quat h (0, CAMERA_DISTANCE, - CAMERA_HEIGHT_OFFSET) ''-Z'' ''Y''))
         else None)" for k
    by (cases k) (simp only: setup_keyframes [OF run] prod.case)
  then show ?thesis
    using run setup_calls_made [OF run] by blast
qed

end
